theory Spec2Isabelle
  imports Complex_Main "HOL-Library.Log_Nat"
begin

section \<open>Python values and library operations used by pyIbaTools\<close>

text \<open>
  A Python float (a clock period, a timebase, a timestamp, a sample) is the rational
  number it stands for; Python ints are \<open>int\<close>. The division of two floats rounds its
  result to the nearest double, as IEEE 754 prescribes, because the code truncates such
  quotients and truncation sees the rounding; sums and products of floats are taken
  exactly. Every exception class the modelled code can raise is a constructor of
  \<open>error\<close>, and a function that can raise returns \<open>error + 'a\<close>.
\<close>

datatype error =
    ChannelNotFoundError
  | IbaFileDamagedError
  | IbaFileNotCompleteError
  | DataStackingError
  | IbaFileIsCurrentlyWrittenError
  | FileNotFoundError
  | RuntimeError
  | ValueError
  | ZeroDivisionError
  | IndexError
  | KeyError
  | TypeError
  | InvalidIndexError
  | OverflowError

text \<open>A cell of a numpy array or of a pandas column: a float, a text, a timestamp,
  or the null marker (None, NaN, NaT).\<close>

datatype cell = Num rat | Str string | Time rat | Null

text \<open>\<open>int(x)\<close> on a float truncates toward zero.\<close>

definition py_int :: "rat \<Rightarrow> int" where
  "py_int q = (if 0 \<le> q then \<lfloor>q\<rfloor> else \<lceil>q\<rceil>)"

text \<open>Python's \<open>round\<close> on a float: to the nearest integer, a tie to the even one.
  The same rule decides ties when a result is rounded to a double.\<close>

definition py_round :: "rat \<Rightarrow> int" where
  "py_round q =
     (let f = \<lfloor>q\<rfloor>; d = q - of_int f
      in if d < 1 / 2 then f
         else if 1 / 2 < d then f + 1
         else if even f then f else f + 1)"

text \<open>The power \<open>2 ^ e\<close> for an integer exponent, and for a positive rational \<open>q\<close> the
  exponent \<open>e\<close> with \<open>2 ^ e \<le> q < 2 ^ (e + 1)\<close>: the bit lengths of numerator and
  denominator give it up to one.\<close>

definition pow2 :: "int \<Rightarrow> rat" where
  "pow2 e = (if 0 \<le> e then 2 ^ nat e else 1 / 2 ^ nat (- e))"

definition floor_log2 :: "rat \<Rightarrow> int" where
  "floor_log2 q =
     (let g = bitlen (fst (quotient_of q)) - bitlen (snd (quotient_of q))
      in if pow2 g \<le> q then g else g - 1)"

text \<open>Rounding a rational to the nearest double: 53 significant bits, so the spacing of
  the doubles around \<open>q\<close> is \<open>2 ^ (e - 52)\<close> for the exponent \<open>e\<close> of \<open>q\<close>, which is not
  taken below \<open>-1022\<close> (the subnormal range); ties go to the even neighbour.\<close>

definition float_round :: "rat \<Rightarrow> rat" where
  "float_round q =
     (if q = 0 then 0
      else
        (let e = max (floor_log2 \<bar>q\<bar>) (- 1022);
             ulp = pow2 (e - 52)
         in rat_of_int (py_round (q / ulp)) * ulp))"

text \<open>\<open>a / b\<close> on floats: ZeroDivisionError when \<open>b\<close> is zero, otherwise the quotient
  rounded to a double. A quotient beyond the largest double is infinite in Python; every
  quotient of the modelled code goes straight into \<open>int()\<close> or \<open>np.repeat\<close>, which raise
  on an infinite value, so the overflow is the error of the division here.\<close>

definition py_truediv :: "rat \<Rightarrow> rat \<Rightarrow> error + rat" where
  "py_truediv a b =
     (if b = 0 then Inl ZeroDivisionError
      else
        (let q = float_round (a / b)
         in if q \<noteq> 0 \<and> 1024 \<le> floor_log2 \<bar>q\<bar> then Inl OverflowError else Inr q))"

text \<open>\<open>xs[i] = v\<close> on a list: a negative index counts from the end, an index out of
  range raises IndexError.\<close>

definition py_list_set :: "'a list \<Rightarrow> int \<Rightarrow> 'a \<Rightarrow> error + 'a list" where
  "py_list_set xs i v =
     (if 0 \<le> i \<and> i < int (length xs) then Inr (xs[nat i := v])
      else if i < 0 \<and> - int (length xs) \<le> i then Inr (xs[nat (int (length xs) + i) := v])
      else Inl IndexError)"

text \<open>The elements at positions \<open>0, k, 2k, ...\<close> of a list.\<close>

fun every_nth :: "nat \<Rightarrow> 'a list \<Rightarrow> 'a list" where
  "every_nth k [] = []"
| "every_nth k (x # xs) = x # every_nth k (drop (k - 1) xs)"

text \<open>\<open>xs[::k]\<close> on a list or an array: a zero step raises ValueError, a negative
  step walks from the last element backwards.\<close>

definition py_slice_step :: "'a list \<Rightarrow> int \<Rightarrow> error + 'a list" where
  "py_slice_step xs k =
     (if k = 0 then Inl ValueError
      else if 0 < k then Inr (every_nth (nat k) xs)
      else Inr (every_nth (nat (- k)) (rev xs)))"

text \<open>The slicing \<open>xs[::int(tbase / clk)]\<close> that readIbaFile and both channel readers
  apply when \<open>tbase != 0\<close>.\<close>

definition take_timebase :: "'a list \<Rightarrow> rat \<Rightarrow> rat \<Rightarrow> error + 'a list" where
  "take_timebase xs tbase clk =
     (if tbase \<noteq> 0 then
        (case py_truediv tbase clk of
           Inl e \<Rightarrow> Inl e
         | Inr q \<Rightarrow> py_slice_step xs (py_int q))
      else Inr xs)"

text \<open>Modelled from the spec: numpy's \<open>repeat\<close> is not part of the repository. The spec
  describes the call \<open>np.repeat(processed_data, fct)\<close> as "upsample by integer repetition
  of factor nativeClock/referenceClock (each native sample is replicated)"; a negative
  count is rejected.\<close>

definition np_repeat :: "'a list \<Rightarrow> rat \<Rightarrow> error + 'a list" where
  "np_repeat xs fct =
     (if py_int fct < 0 then Inl ValueError
      else Inr (concat (map (replicate (nat (py_int fct))) xs)))"

section \<open>The external channel reader\<close>

text \<open>
  A channel reader of ibaFilesLite, reduced to what pyIbaTools reads from it: the flag
  \<open>IsText\<close>, the result of \<open>QueryData()\<close> (None, or the samples with their
  \<open>Timebase\<close>) and the result of \<open>QueryTextData()\<close> (None, or the transition events
  as pairs of a timestamp and a text).
\<close>

record channel_data =
  Timebase :: rat
  samples :: "rat list"

record channel_reader =
  IsText :: bool
  QueryData :: "channel_data option"
  QueryTextData :: "(rat \<times> string) list option"

section \<open>Reading one channel\<close>

text \<open>\<open>__read_numeric_channel__(chan_reader, tbase, clk)\<close>.\<close>

definition read_numeric_channel :: "channel_reader \<Rightarrow> rat \<Rightarrow> rat \<Rightarrow> error + rat list" where
  "read_numeric_channel chan_reader tbase clk =
     (case QueryData chan_reader of
        None \<Rightarrow> Inl IbaFileDamagedError
      | Some channel_data \<Rightarrow>
          (let chn_clk = Timebase channel_data;
               processed_data = samples channel_data
           in case (if chn_clk \<noteq> clk then
                      (case py_truediv chn_clk clk of
                         Inl e \<Rightarrow> Inl e
                       | Inr fct \<Rightarrow> np_repeat processed_data fct)
                    else Inr processed_data) of
                Inl e \<Rightarrow> Inl e
              | Inr processed_data \<Rightarrow> take_timebase processed_data tbase clk))"

text \<open>The inner loop of \<open>__read_text_channel__\<close>:
  \<open>for idx_list in range(start_idx, end_idx): processed_data[idx_list] = cur_str\<close>.\<close>

fun fill_range :: "string list \<Rightarrow> string \<Rightarrow> int list \<Rightarrow> error + string list" where
  "fill_range processed_data cur_str [] = Inr processed_data"
| "fill_range processed_data cur_str (idx_list # later) =
     (case py_list_set processed_data idx_list cur_str of
        Inl e \<Rightarrow> Inl e
      | Inr processed_data' \<Rightarrow> fill_range processed_data' cur_str later)"

text \<open>The outer loop \<open>for idx, text_data in enumerate(channel_data)\<close>; the fourth
  argument is \<open>idx\<close>, the fifth the events still to visit. The end index is read from
  \<open>channel_data[idx]\<close>, as in the source.\<close>

fun text_loop ::
  "(rat \<times> string) list \<Rightarrow> rat \<Rightarrow> int \<Rightarrow> nat \<Rightarrow> (rat \<times> string) list \<Rightarrow> string list
     \<Rightarrow> error + string list" where
  "text_loop channel_data clk frames idx [] processed_data = Inr processed_data"
| "text_loop channel_data clk frames idx (text_data # rest) processed_data =
     (case py_truediv (fst text_data) clk of
        Inl e \<Rightarrow> Inl e
      | Inr q \<Rightarrow>
          (let start_idx = py_int q in
           case (if idx < length channel_data
                 then (case py_truediv (fst (channel_data ! idx)) clk of
                         Inl e \<Rightarrow> Inl e
                       | Inr q' \<Rightarrow> Inr (py_int q'))
                 else Inr frames) of
             Inl e \<Rightarrow> Inl e
           | Inr end_idx \<Rightarrow>
               (case fill_range processed_data (snd text_data) [start_idx..end_idx - 1] of
                  Inl e \<Rightarrow> Inl e
                | Inr processed_data' \<Rightarrow>
                    text_loop channel_data clk frames (Suc idx) rest processed_data')))"

text \<open>\<open>__read_text_channel__(chan_reader, tbase, clk, frames)\<close>.\<close>

definition read_text_channel ::
  "channel_reader \<Rightarrow> rat \<Rightarrow> rat \<Rightarrow> int \<Rightarrow> error + string list" where
  "read_text_channel chan_reader tbase clk frames =
     (case QueryTextData chan_reader of
        None \<Rightarrow> Inl IbaFileDamagedError
      | Some channel_data \<Rightarrow>
          (case text_loop channel_data clk frames 0 channel_data
                  (replicate (nat frames) '''') of
             Inl e \<Rightarrow> Inl e
           | Inr processed_data \<Rightarrow> take_timebase processed_data tbase clk))"

section \<open>The external file reader and the file behind a path\<close>

text \<open>
  What the operating system and ibaFilesLite answer for one path, taken as given:
  \<open>isCurrentPDA\<close> is \<open>ibaFilesLite.isCurrentPDA(path)\<close>; \<open>Open_ok\<close> tells whether
  \<open>reader.Open(path)\<close> returns (it raises RuntimeError otherwise); \<open>isfile\<close> is
  \<open>os.path.isfile(path)\<close>; \<open>info_clk\<close> and \<open>info_frames\<close> are
  \<open>float(reader.QueryInfoByName('clk'))\<close> and \<open>int(reader.QueryInfoByName('frames'))\<close>,
  None when the expression raises; \<open>QueryChannel\<close> and \<open>QueryChannelByName\<close> are None
  when the reader raises RuntimeError; \<open>EnumerateChannels\<close> lists \<open>str(info[0])\<close> and
  \<open>info[1]\<close> of every channel; \<open>content\<close> holds the lines of the file as
  \<open>readline\<close> returns them, None when \<open>open(path, "rb")\<close> raises.
\<close>

datatype channel_ref = ChannelId string | Name string

record iba_file =
  path :: string
  isCurrentPDA :: bool
  Open_ok :: bool
  isfile :: bool
  info_clk :: "rat option"
  info_frames :: "int option"
  GetStartTime :: rat
  QueryChannel :: "channel_ref \<Rightarrow> channel_reader option"
  QueryChannelByName :: "string \<Rightarrow> channel_reader option"
  EnumerateChannels :: "(string \<times> string) list"
  content :: "string list option"

text \<open>Entering \<open>with ibaReader(iba_file) as reader\<close>: None when the reader is opened
  and yielded, otherwise the exception raised before the body runs.\<close>

definition ibaReader :: "iba_file \<Rightarrow> error option" where
  "ibaReader iba_file =
     (if isCurrentPDA iba_file then Some IbaFileIsCurrentlyWrittenError
      else if \<not> Open_ok iba_file then
        (if \<not> isfile iba_file then Some FileNotFoundError else Some RuntimeError)
      else None)"

text \<open>\<open>__check_file__(reader, iba_file)\<close>. The first argument is \<open>reader.IsOpen()\<close>
  on entry; the second component of the result is \<open>reader.IsOpen()\<close> on exit.\<close>

definition check_file :: "bool \<Rightarrow> iba_file \<Rightarrow> (error + rat \<times> int) \<times> bool" where
  "check_file is_open iba_file =
     (let close_file = \<not> is_open in
      if close_file \<and> \<not> Open_ok iba_file then (Inl RuntimeError, False)
      else
        (case info_clk iba_file of
           None \<Rightarrow>
             (if \<not> isfile iba_file then Inl FileNotFoundError else Inl IbaFileDamagedError,
              \<not> close_file)
         | Some clk \<Rightarrow>
             (case info_frames iba_file of
                None \<Rightarrow>
                  (if \<not> isfile iba_file then Inl FileNotFoundError
                   else Inl IbaFileDamagedError,
                   \<not> close_file)
              | Some frames \<Rightarrow>
                  (if frames \<ge> 1000000000 then (Inl IbaFileNotCompleteError, \<not> close_file)
                   else (Inr (clk, frames), \<not> close_file)))))"

text \<open>\<open>re.match("[0-9]*[.:][0-9]*", s)\<close>: the match starts at the first character, so
  it succeeds exactly when the character after the leading digits is a dot or a colon.\<close>

definition is_digit :: "char \<Rightarrow> bool" where
  "is_digit c = (c \<in> set ''0123456789'')"

definition matches_id :: "string \<Rightarrow> bool" where
  "matches_id s =
     (case dropWhile is_digit s of
        [] \<Rightarrow> False
      | c # _ \<Rightarrow> c = CHR ''.'' \<or> c = CHR '':'')"

text \<open>\<open>__get_iba_channel_reader__(channel_, freader_)\<close>; a name cannot end in an
  underscore here, so the arguments are \<open>channel\<close> and \<open>freader\<close>.\<close>

definition get_iba_channel_reader :: "channel_ref \<Rightarrow> iba_file \<Rightarrow> error + channel_reader" where
  "get_iba_channel_reader channel freader =
     (case channel of
        ChannelId i \<Rightarrow>
          (case QueryChannel freader channel of
             None \<Rightarrow> Inl RuntimeError | Some r \<Rightarrow> Inr r)
      | Name s \<Rightarrow>
          (if matches_id s then
             (case QueryChannel freader channel of
                None \<Rightarrow> Inl RuntimeError | Some r \<Rightarrow> Inr r)
           else
             (case QueryChannelByName freader s of
                None \<Rightarrow> Inl RuntimeError | Some r \<Rightarrow> Inr r)))"

text \<open>\<open>__read_channel__(reader, iba_file, channel, tbase, clk, frames)\<close>.\<close>

definition read_channel ::
  "iba_file \<Rightarrow> channel_ref \<Rightarrow> rat \<Rightarrow> rat \<Rightarrow> int \<Rightarrow> error + cell list" where
  "read_channel reader channel tbase clk frames =
     (case get_iba_channel_reader channel reader of
        Inl e \<Rightarrow> (if e = RuntimeError then Inl ChannelNotFoundError else Inl e)
      | Inr chan_reader \<Rightarrow>
          (if IsText chan_reader then
             (case read_text_channel chan_reader tbase clk frames of
                Inl e \<Rightarrow> Inl e | Inr xs \<Rightarrow> Inr (map Str xs))
           else
             (case read_numeric_channel chan_reader tbase clk of
                Inl e \<Rightarrow> Inl e | Inr xs \<Rightarrow> Inr (map Num xs))))"

text \<open>\<open>is_channel(chan, file)\<close>: the bare \<open>except\<close> turns every exception into
  False.\<close>

definition is_channel :: "channel_ref \<Rightarrow> iba_file \<Rightarrow> bool" where
  "is_channel chan file =
     (case ibaReader file of
        Some e \<Rightarrow> False
      | None \<Rightarrow>
          (case get_iba_channel_reader chan file of
             Inl e \<Rightarrow> False
           | Inr chanReader \<Rightarrow> True))"

text \<open>\<open>checkFile(iba_file)\<close>.\<close>

definition checkFile :: "iba_file \<Rightarrow> error + rat \<times> int" where
  "checkFile iba_file =
     (case ibaReader iba_file of
        Some e \<Rightarrow> Inl e
      | None \<Rightarrow> fst (check_file True iba_file))"

section \<open>Channel declarations\<close>

text \<open>\<open>s.split(sep)\<close>: an empty separator raises ValueError; otherwise the text is cut
  at every occurrence of the separator, scanning from the left.\<close>

fun split_from :: "string \<Rightarrow> string \<Rightarrow> string \<Rightarrow> string list" where
  "split_from sep tok [] = [rev tok]"
| "split_from sep tok (c # cs) =
     (if take (length sep) (c # cs) = sep
      then rev tok # split_from sep [] (drop (length sep - 1) cs)
      else split_from sep (c # tok) cs)"

definition py_split :: "string \<Rightarrow> string \<Rightarrow> error + string list" where
  "py_split s sep = (if sep = [] then Inl ValueError else Inr (split_from sep [] s))"

text \<open>\<open>s.strip()\<close> removes leading and trailing whitespace (the ASCII whitespace of
  \<open>str.isspace\<close>: codes 9 to 13, 28 to 31 and 32).\<close>

definition is_space :: "char \<Rightarrow> bool" where
  "is_space c = (let n = (of_char c :: nat) in (9 \<le> n \<and> n \<le> 13) \<or> (28 \<le> n \<and> n \<le> 32))"

definition py_strip :: "string \<Rightarrow> string" where
  "py_strip s = rev (dropWhile is_space (rev (dropWhile is_space s)))"

text \<open>\<open>pat in s\<close> on strings.\<close>

fun py_in :: "string \<Rightarrow> string \<Rightarrow> bool" where
  "py_in pat [] = (pat = [])"
| "py_in pat (c # cs) = (take (length pat) (c # cs) = pat \<or> py_in pat cs)"

text \<open>An entry of the channel list is one identity or a list of alternatives
  (\<open>isinstance(chn, list)\<close>). The \<open>channels\<close> argument is None, a string, a dict (its
  items in order, keys distinct) or a list; the \<open>names\<close> argument is None, a string or a
  list.\<close>

datatype channel_entry = Single string | Alternatives "string list"

datatype channels_arg =
    ChannelsNone
  | ChannelsStr string
  | ChannelsDict "(string \<times> string) list"
  | ChannelsList "channel_entry list"

datatype names_arg = NamesNone | NamesStr string | NamesList "string list"

text \<open>The two loops of \<open>get_channels\<close> when \<open>ids\<close> is given. For an entry that is a
  list, \<open>cid in str(info[0])[3:]\<close> raises TypeError as soon as there is a channel to
  compare with.\<close>

fun get_channels_ids :: "(string \<times> string) list \<Rightarrow> channel_entry list \<Rightarrow> error + string list" where
  "get_channels_ids infos [] = Inr []"
| "get_channels_ids infos (Single cid # ids) =
     (case get_channels_ids infos ids of
        Inl e \<Rightarrow> Inl e
      | Inr channels \<Rightarrow>
          Inr (map snd (filter (\<lambda>info. py_in cid (drop 3 (fst info)) \<or> cid = snd info) infos)
               @ channels))"
| "get_channels_ids infos (Alternatives cid # ids) =
     (if infos \<noteq> [] then Inl TypeError else get_channels_ids infos ids)"

text \<open>\<open>get_channels(iba_file, ids=None)\<close>.\<close>

definition get_channels :: "iba_file \<Rightarrow> channel_entry list option \<Rightarrow> error + string list" where
  "get_channels iba_file ids =
     (case ibaReader iba_file of
        Some e \<Rightarrow> Inl e
      | None \<Rightarrow>
          (let infos = EnumerateChannels iba_file in
           case ids of
             Some ids' \<Rightarrow> get_channels_ids infos ids'
           | None \<Rightarrow> Inr (map snd infos)))"

text \<open>The first step of \<open>__declaration_check__\<close>: a \<open>names\<close> string is split and its
  tokens stripped.\<close>

definition check_names :: "names_arg \<Rightarrow> string \<Rightarrow> error + string list option" where
  "check_names names delimiter =
     (case names of
        NamesStr s \<Rightarrow>
          (case py_split s delimiter of
             Inl e \<Rightarrow> Inl e
           | Inr els \<Rightarrow> Inr (Some (map py_strip els)))
      | NamesList l \<Rightarrow> Inr (Some l)
      | NamesNone \<Rightarrow> Inr None)"

text \<open>The second step: the \<open>if\<close>/\<open>elif\<close> chain over \<open>channels\<close>, in the order of the
  source. It yields the channel list and the names as they stand after it.\<close>

definition check_channels ::
  "iba_file \<Rightarrow> channels_arg \<Rightarrow> string list option \<Rightarrow> string
     \<Rightarrow> error + channel_entry list \<times> string list option" where
  "check_channels iba_file channels names delimiter =
     (if channels = ChannelsNone \<or> channels = ChannelsStr [] \<or> channels = ChannelsStr ''*''
      then
        (case get_channels iba_file None of
           Inl e \<Rightarrow> Inl e
         | Inr chs \<Rightarrow> Inr (map Single chs, Some chs))
      else
        (case channels of
           ChannelsStr s \<Rightarrow>
             (case py_split s delimiter of
                Inl e \<Rightarrow> Inl e
              | Inr els \<Rightarrow> Inr (map (\<lambda>el. Single (py_strip el)) els, names))
         | ChannelsDict d \<Rightarrow> Inr (map (\<lambda>kv. Single (fst kv)) d, Some (map snd d))
         | ChannelsList l \<Rightarrow> Inr (filter (\<lambda>chn. chn \<noteq> Single []) l, names)
         | ChannelsNone \<Rightarrow> Inr ([], names)))"

text \<open>\<open>__declaration_check__(iba_file, channels, names, delimiter)\<close>; the last step
  replaces the names by \<open>get_channels(iba_file, channels)\<close> when they are not a list as
  long as the channel list.\<close>

definition declaration_check ::
  "iba_file \<Rightarrow> channels_arg \<Rightarrow> names_arg \<Rightarrow> string
     \<Rightarrow> error + channel_entry list \<times> string list" where
  "declaration_check iba_file channels names delimiter =
     (case check_names names delimiter of
        Inl e \<Rightarrow> Inl e
      | Inr names1 \<Rightarrow>
          (case check_channels iba_file channels names1 delimiter of
             Inl e \<Rightarrow> Inl e
           | Inr (channels', names2) \<Rightarrow>
               (if names2 = None \<or> length channels' \<noteq> length (the names2) then
                  (case get_channels iba_file (Some channels') of
                     Inl e \<Rightarrow> Inl e
                   | Inr l' \<Rightarrow> Inr (channels', l'))
                else Inr (channels', the names2))))"

section \<open>Tables\<close>

text \<open>
  A pandas DataFrame with the default row index \<open>0..n-1\<close> is the list of its columns in
  order, each a label and its cells. The operations below are the ones pyIbaTools calls,
  with the behaviour pandas documents for them.
\<close>

type_synonym frame = "(string \<times> cell list) list"

definition nrows :: "frame \<Rightarrow> nat" where
  "nrows df = (case df of [] \<Rightarrow> 0 | col # _ \<Rightarrow> length (snd col))"

definition columns :: "frame \<Rightarrow> string list" where
  "columns df = map fst df"

text \<open>Replacing the column of a label where it stands, or appending it.\<close>

fun put_column :: "string \<Rightarrow> cell list \<Rightarrow> frame \<Rightarrow> frame" where
  "put_column name vals [] = [(name, vals)]"
| "put_column name vals (col # df) =
     (if fst col = name then (name, vals) # df else col # put_column name vals df)"

text \<open>\<open>df[name] = array\<close>: a frame without rows takes the length of the array (columns
  it already has are filled with nulls); otherwise the lengths must agree, or pandas raises
  ValueError.\<close>

definition df_setitem :: "frame \<Rightarrow> string \<Rightarrow> cell list \<Rightarrow> error + frame" where
  "df_setitem df name vals =
     (if nrows df = 0 then
        Inr (put_column name vals (map (\<lambda>col. (fst col, replicate (length vals) Null)) df))
      else if length vals = nrows df then Inr (put_column name vals df)
      else Inl ValueError)"

text \<open>\<open>df[name] = None\<close>: the scalar fills every row.\<close>

definition df_set_null :: "frame \<Rightarrow> string \<Rightarrow> frame" where
  "df_set_null df name = put_column name (replicate (nrows df) Null) df"

text \<open>\<open>pd.concat([tf, df], axis=1)\<close>: the columns side by side, rows aligned on the
  index, the shorter frame filled with nulls.\<close>

definition concat_axis1 :: "frame \<Rightarrow> frame \<Rightarrow> frame" where
  "concat_axis1 tf df =
     (let n = max (nrows tf) (nrows df)
      in map (\<lambda>col. (fst col, snd col @ replicate (n - length (snd col)) Null)) (tf @ df))"




section \<open>Reading one file\<close>

text \<open>\<open>__cache_prep__(iba_file)\<close> reads the file and drops the bytes; it raises when the
  file cannot be opened.\<close>

definition cache_prep :: "iba_file \<Rightarrow> error option" where
  "cache_prep iba_file = (if content iba_file = None then Some FileNotFoundError else None)"

text \<open>The loop \<open>for alt_chn in chn\<close> of readIbaFile: the data of the first alternative
  that is found, None when none is; an exception other than ChannelNotFoundError is
  raised again.\<close>

fun read_alternatives ::
  "iba_file \<Rightarrow> rat \<Rightarrow> rat \<Rightarrow> int \<Rightarrow> string list \<Rightarrow> error + cell list option" where
  "read_alternatives reader tbase clk frames [] = Inr None"
| "read_alternatives reader tbase clk frames (alt_chn # chn) =
     (case read_channel reader (Name alt_chn) tbase clk frames of
        Inr chan_data \<Rightarrow> Inr (Some chan_data)
      | Inl e \<Rightarrow>
          (if e = ChannelNotFoundError then read_alternatives reader tbase clk frames chn
           else Inl e))"

text \<open>\<open>df[names[num]] = chan_data\<close> inside \<open>try ... except Exception\<close>: an unbound
  \<open>chan_data\<close>, an index beyond \<open>names\<close> and a refused assignment all end in
  DataStackingError.\<close>

definition add_channel :: "frame \<Rightarrow> string list \<Rightarrow> nat \<Rightarrow> cell list option \<Rightarrow> error + frame" where
  "add_channel df names num chan_data =
     (case chan_data of
        None \<Rightarrow> Inl DataStackingError
      | Some vals \<Rightarrow>
          (if num < length names then
             (case df_setitem df (names ! num) vals of
                Inl e \<Rightarrow> Inl DataStackingError
              | Inr df' \<Rightarrow> Inr df')
           else Inl DataStackingError))"

text \<open>The loop \<open>for num, chn in enumerate(channels)\<close>. The variable \<open>chan_data\<close> lives
  across iterations: None while it is unbound, afterwards the data read last.\<close>

fun channel_loop ::
  "iba_file \<Rightarrow> string list \<Rightarrow> rat \<Rightarrow> rat \<Rightarrow> int \<Rightarrow> bool \<Rightarrow> nat \<Rightarrow> channel_entry list
     \<Rightarrow> cell list option \<Rightarrow> frame \<Rightarrow> error + frame" where
  "channel_loop reader names tbase clk frames ignore num [] chan_data df = Inr df"
| "channel_loop reader names tbase clk frames ignore num (Alternatives chn # channels)
     chan_data df =
     (case read_alternatives reader tbase clk frames chn of
        Inl e \<Rightarrow> Inl e
      | Inr found \<Rightarrow>
          (let any_channel_found = (found \<noteq> None);
               chan_data' = (if any_channel_found then found else chan_data)
           in if \<not> any_channel_found \<and> \<not> ignore then Inl ChannelNotFoundError
              else
                (case add_channel df names num chan_data' of
                   Inl e \<Rightarrow> Inl e
                 | Inr df' \<Rightarrow>
                     channel_loop reader names tbase clk frames ignore (Suc num) channels
                       chan_data' df')))"
| "channel_loop reader names tbase clk frames ignore num (Single chn # channels)
     chan_data df =
     (case read_channel reader (Name chn) tbase clk frames of
        Inl e \<Rightarrow>
          (if e = ChannelNotFoundError \<and> ignore
           then channel_loop reader names tbase clk frames ignore (Suc num) channels
                  chan_data df
           else Inl e)
      | Inr vals \<Rightarrow>
          (case add_channel df names num (Some vals) of
             Inl e \<Rightarrow> Inl e
           | Inr df' \<Rightarrow>
               channel_loop reader names tbase clk frames ignore (Suc num) channels
                 (Some vals) df'))"

text \<open>The time axis: \<open>np.linspace(start, start + clk * (frames - 1), frames)\<close>, thinned
  like the channels when \<open>tbase != 0\<close>. A negative number of samples raises
  ValueError.\<close>

definition time_axis :: "rat \<Rightarrow> rat \<Rightarrow> int \<Rightarrow> rat \<Rightarrow> error + cell list" where
  "time_axis start_time clk frames tbase =
     (if frames < 0 then Inl ValueError
      else take_timebase (map (\<lambda>i. Time (start_time + of_nat i * clk)) [0..<nat frames])
             tbase clk)"

text \<open>\<open>readIbaFile(iba_file, channels, names, tbase, delimiter, caching, ignore)\<close>.\<close>

definition readIbaFile ::
  "iba_file \<Rightarrow> channels_arg \<Rightarrow> names_arg \<Rightarrow> rat \<Rightarrow> string \<Rightarrow> bool \<Rightarrow> bool \<Rightarrow> error + frame" where
  "readIbaFile iba_file channels names tbase delimiter caching ignore =
     (case declaration_check iba_file channels names delimiter of
        Inl e \<Rightarrow> Inl e
      | Inr (channels', names') \<Rightarrow>
          (case (if caching \<and> length channels' > 10 then cache_prep iba_file else None) of
             Some e \<Rightarrow> Inl e
           | None \<Rightarrow>
               (case ibaReader iba_file of
                  Some e \<Rightarrow> Inl e
                | None \<Rightarrow>
                    (case fst (check_file True iba_file) of
                       Inl e \<Rightarrow> Inl e
                     | Inr (clk, frames) \<Rightarrow>
                         (case time_axis (GetStartTime iba_file) clk frames tbase of
                            Inl e \<Rightarrow> Inl e
                          | Inr time_data \<Rightarrow>
                              (case channel_loop iba_file names' tbase clk frames ignore 0
                                      channels' None [] of
                                 Inl e \<Rightarrow> Inl e
                               | Inr df \<Rightarrow>
                                   Inr (concat_axis1 [(''Time'', time_data)] df)))))))"

section \<open>Reading and stacking several files\<close>



definition fill_missing :: "string list \<Rightarrow> frame \<Rightarrow> frame" where
  "fill_missing cols df =
     foldl df_set_null df (filter (\<lambda>column. column \<notin> set (columns df)) cols)"



section \<open>Sorting files by start time\<close>








section \<open>The playback loop\<close>

text \<open>
  A VariableUpdater holds the ids of its channels (\<open>chan['id']\<close>), its period and its
  data. The loop of \<open>run\<close> keeps \<open>idx\<close> and \<open>_nextCall\<close>. What one pass of the loop
  reads from outside is given with it: whether the close event is set at the top of the
  pass, and the two readings of \<open>time.time()\<close>, at the top and after the writes.
\<close>

record updater =
  channel :: "string list"
  period :: rat
  data :: frame

record pass_input =
  close_event :: bool
  time_top :: rat
  time_after :: rat

datatype event = SetValue string nat cell | Sleep rat | Exceeded rat

text \<open>\<open>self.data[chan['id']][idx]\<close>: the column of the label, then the row of index
  \<open>idx\<close>; both raise KeyError when absent.\<close>

definition data_at :: "frame \<Rightarrow> string \<Rightarrow> nat \<Rightarrow> error + cell" where
  "data_at df chan_id idx =
     (case map_of df chan_id of
        None \<Rightarrow> Inl KeyError
      | Some xs \<Rightarrow> (if idx < length xs then Inr (xs ! idx) else Inl KeyError))"

text \<open>The loop \<open>for chan in self.channel\<close>: one write to the server per channel, each
  recorded with the index it read.\<close>

fun write_values :: "frame \<Rightarrow> nat \<Rightarrow> string list \<Rightarrow> error + event list" where
  "write_values df idx [] = Inr []"
| "write_values df idx (chan_id # chans) =
     (case data_at df chan_id idx of
        Inl e \<Rightarrow> Inl e
      | Inr v \<Rightarrow>
          (case write_values df idx chans of
             Inl e \<Rightarrow> Inl e
           | Inr evs \<Rightarrow> Inr (SetValue chan_id idx v # evs)))"

text \<open>One pass of the loop body, from \<open>self._nextCall = time.time()\<close> to the sleep or
  the message about the exceeded sample rate: the new \<open>idx\<close> and \<open>_nextCall\<close> and what
  the pass did.\<close>

definition pass :: "updater \<Rightarrow> nat \<times> rat \<Rightarrow> pass_input \<Rightarrow> error + (nat \<times> rat) \<times> event list" where
  "pass u st inp =
     (let idx = fst st;
          nextCall = time_top inp
      in case write_values (data u) idx (channel u) of
           Inl e \<Rightarrow> Inl e
         | Inr evs \<Rightarrow>
             (let idx1 = idx + 1;
                  idx2 = (if idx1 > nrows (data u) then 0 else idx1);
                  nextCall' = nextCall + period u;
                  sleepLength = nextCall' - time_after inp
              in Inr ((idx2, nextCall'),
                      evs @ [if sleepLength > 0 then Sleep sleepLength
                             else Exceeded (\<bar>sleepLength\<bar>)])))"

text \<open>\<open>run\<close> over the passes for which inputs are given: it ends when the close event is
  set, raises when a pass raises, and is still running when the inputs are used up.\<close>

datatype outcome = Stopped | Running | Raised error

fun run_from ::
  "updater \<Rightarrow> nat \<times> rat \<Rightarrow> pass_input list \<Rightarrow> outcome \<times> (nat \<times> rat) \<times> event list" where
  "run_from u st [] = (Running, st, [])"
| "run_from u st (inp # inps) =
     (if close_event inp then (Stopped, st, [])
      else
        (case pass u st inp of
           Inl e \<Rightarrow> (Raised e, st, [])
         | Inr (st', evs) \<Rightarrow>
             (case run_from u st' inps of
                (out, st'', evs') \<Rightarrow> (out, st'', evs @ evs'))))"

text \<open>\<open>run\<close> starts with \<open>idx = 0\<close>; \<open>_nextCall\<close> holds what the constructor stored.\<close>

definition run :: "updater \<Rightarrow> rat \<Rightarrow> pass_input list \<Rightarrow> outcome \<times> (nat \<times> rat) \<times> event list" where
  "run u nextCall0 inps = run_from u (0, nextCall0) inps"

section \<open>The decimation as the specification words it\<close>


section \<open>Concrete readers, files and updaters\<close>

text \<open>A text channel with the events \<open>(0, "A")\<close> and \<open>(5, "B")\<close>, and a numeric channel
  of four samples on the clock 1.\<close>

definition text_events_reader :: channel_reader where
  "text_events_reader =
     \<lparr>IsText = True, QueryData = None, QueryTextData = Some [(0, ''A''), (5, ''B'')]\<rparr>"


text \<open>A readable file with the clock 1, two frames and one numeric channel named \<open>x\<close>;
  the same file while the recorder has not finished it; and a path with no file.\<close>

definition good_file :: iba_file where
  "good_file =
     \<lparr>path = ''a.dat'', isCurrentPDA = False, Open_ok = True, isfile = True,
      info_clk = Some 1, info_frames = Some 2, GetStartTime = 10,
      QueryChannel = (\<lambda>c. None),
      QueryChannelByName =
        (\<lambda>s. if s = ''x''
             then Some \<lparr>IsText = False, QueryData = Some \<lparr>Timebase = 1, samples = [7, 8]\<rparr>,
                        QueryTextData = None\<rparr>
             else None),
      EnumerateChannels = [(''[0:0]'', ''x'')],
      content = Some []\<rparr>"

definition unfinished_file :: iba_file where
  "unfinished_file = good_file\<lparr>path := ''b.dat'', info_frames := Some 1000000000\<rparr>"


text \<open>An updater for one channel over a table of one row, and one over two rows.\<close>

definition one_row_updater :: updater where
  "one_row_updater =
     \<lparr>channel = [''x''], period = 1, data = [(''Time'', [Time 0]), (''x'', [Num 7])]\<rparr>"

definition two_row_updater :: updater where
  "two_row_updater =
     \<lparr>channel = [''x''], period = 1,
      data = [(''Time'', [Time 0, Time 1]), (''x'', [Num 7, Num 8])]\<rparr>"

text \<open>An updater for one channel over a table of four rows.\<close>

definition four_row_updater :: updater where
  "four_row_updater =
     \<lparr>channel = [''x''], period = 1,
      data = [(''Time'', [Time 0, Time 1, Time 2, Time 3]),
              (''x'', [Num 5, Num 6, Num 7, Num 8])]\<rparr>"

text \<open>A pass that starts at the time \<open>t\<close> and whose writes take no time.\<close>

definition pass_at :: "rat \<Rightarrow> pass_input" where
  "pass_at t = \<lparr>close_event = False, time_top = t, time_after = t\<rparr>"




section \<open>Text channels\<close>

text \<open>The end index of an event is read from the event itself, so every range that
  \<open>__read_text_channel__\<close> fills is empty and the loop leaves the list as it found
  it.\<close>

lemma text_loop_keeps:
  assumes "\<forall>ev \<in> set cd. \<exists>q. py_truediv (fst ev) clk = Inr q"
  shows "idx \<le> length cd \<Longrightarrow> text_loop cd clk frames idx (drop idx cd) pd = Inr pd"
proof (induction "length cd - idx" arbitrary: idx)
  case 0
  then show ?case by simp
next
  case (Suc n)
  then have lt: "idx < length cd" by simp
  then have d: "drop idx cd = cd ! idx # drop (Suc idx) cd"
    by (simp add: Cons_nth_drop_Suc)
  obtain q where q: "py_truediv (fst (cd ! idx)) clk = Inr q"
    using assms lt nth_mem by blast
  have IH: "text_loop cd clk frames (Suc idx) (drop (Suc idx) cd) pd = Inr pd"
    using Suc lt by simp
  show ?case using lt IH q by (simp add: d)
qed

lemma read_text_channel_blank:
  assumes "QueryTextData r = Some cd"
    and "\<forall>ev \<in> set cd. \<exists>q. py_truediv (fst ev) clk = Inr q"
  shows "read_text_channel r 0 clk frames = Inr (replicate (nat frames) [])"
  using assms(1) text_loop_keeps [OF assms(2), of 0 frames "replicate (nat frames) []"]
  by (simp add: read_text_channel_def take_timebase_def)

text \<open>
  Claim C1. The text extractor is to hold each event's value from its index up to the
  next event's index, and the last value up to the frame count: the events \<open>(0, "A")\<close>
  and \<open>(5, "B")\<close> with 8 frames on the reference clock should give five times \<open>"A"\<close>
  and three times \<open>"B"\<close>. The code returns eight empty strings at that input.
\<close>

theorem read_text_channel_example:
  "read_text_channel text_events_reader 0 1 8 = Inr [[], [], [], [], [], [], [], []]"
  by code_simp

section \<open>The playback cursor\<close>

text \<open>
  Claim C5. At every write to the sink the cursor is to lie below the series length.
  Over a table of one row the second pass of the loop reads at index 1, which is the
  length of the table, and the lookup raises KeyError: the test \<open>idx > shape[0]\<close> lets
  the cursor reach the length before it wraps.
\<close>

theorem run_cursor_reaches_length:
  "nrows (data one_row_updater) = 1 \<and>
   run one_row_updater 0 [pass_at 0, pass_at 1] =
     (Raised KeyError, (1, 1), [SetValue ''x'' 0 (Num 7), Sleep 1])"
  by code_simp

section \<open>Unresolved channels in tolerant mode\<close>

text \<open>
  Claim C6. With \<open>ignore=True\<close> a requested channel that cannot be resolved is to be
  skipped and to add no column, a group of alternatives none of which resolves included,
  and the columns of the other channels are to be unaffected. In the code such a group
  falls through to the assignment of \<open>chan_data\<close>: as the first entry it ends the call
  with DataStackingError, and after a channel that was read it adds a column under the
  group's name that repeats the data of that channel. And when the names are left to
  default, an unresolved channel ahead of a resolved one shifts the index into the names,
  and the resolved channel ends the call with DataStackingError.
\<close>

theorem readIbaFile_unresolved_group:
  "readIbaFile good_file (ChannelsList [Alternatives [''a'', ''b'']]) (NamesList [''g''])
     0 '','' True True = Inl DataStackingError \<and>
   readIbaFile good_file (ChannelsList [Single ''x'', Alternatives [''a'', ''b'']])
     (NamesList [''x'', ''g'']) 0 '','' True True =
     Inr [(''Time'', [Time 10, Time 11]), (''x'', [Num 7, Num 8]), (''g'', [Num 7, Num 8])] \<and>
   readIbaFile good_file (ChannelsList [Single ''a'', Single ''x'']) NamesNone
     0 '','' True True = Inl DataStackingError"
  by code_simp

section \<open>Declarations given as one string\<close>

text \<open>
  Claim C8. A declaration given as one delimited string is to be split, its tokens
  trimmed and the empty ones dropped, so that \<open>"a,,b"\<close> resolves to \<open>a\<close> and \<open>b\<close>. The
  code splits and trims but keeps the empty token, for every file and every three names.
\<close>

theorem declaration_check_keeps_empty_token:
  "declaration_check f (ChannelsStr ''a,,b'') (NamesList [n1, n2, n3]) '','' =
     Inr ([Single ''a'', Single [], Single ''b''], [n1, n2, n3])"
  by (simp add: declaration_check_def check_names_def check_channels_def py_split_def
        py_strip_def is_space_def)

section \<open>Validation of the file metadata\<close>

text \<open>
  Claim C9. When the reader is open (or can be opened) and both metadata queries succeed,
  \<open>__check_file__\<close> fails with IbaFileNotCompleteError for a frame count of at least
  1 000 000 000, never with IbaFileDamagedError, and returns the clock period and the
  frame count for a smaller frame count.
\<close>

theorem check_file_sentinel:
  assumes "is_open \<or> Open_ok f" and "info_clk f = Some clk" and "info_frames f = Some frames"
  shows "fst (check_file is_open f) =
           (if 1000000000 \<le> frames then Inl IbaFileNotCompleteError else Inr (clk, frames))
         \<and> fst (check_file is_open f) \<noteq> Inl IbaFileDamagedError"
  using assms by (auto simp add: check_file_def Let_def)

theorem check_file_sentinel_witness:
  "(True \<or> Open_ok unfinished_file) \<and> info_clk unfinished_file = Some 1
   \<and> info_frames unfinished_file = Some 1000000000
   \<and> fst (check_file True unfinished_file) = Inl IbaFileNotCompleteError
   \<and> fst (check_file True unfinished_file) \<noteq> Inl IbaFileDamagedError
   \<and> fst (check_file True good_file) = Inr (1, 2)"
  using check_file_sentinel [of True unfinished_file 1 1000000000]
        check_file_sentinel [of True good_file 1 2]
  by (simp add: unfinished_file_def good_file_def)

section \<open>The channel-existence check\<close>

text \<open>
  Claim C10. \<open>is_channel\<close> never raises: it is True exactly when the file is not being
  written by the recorder, the reader opens it and a channel reader is obtained for the
  identity, and False in every other case.
\<close>

theorem is_channel_total:
  "is_channel chan file \<longleftrightarrow>
     \<not> isCurrentPDA file \<and> Open_ok file \<and> (\<exists>r. get_iba_channel_reader chan file = Inr r)"
  by (auto simp add: is_channel_def ibaReader_def split: sum.splits)

section \<open>Decimation of numeric channels\<close>






text \<open>The exponent that \<open>float_round\<close> works with is the right one: a positive
  rational lies between the power of two of its \<open>floor_log2\<close> and the next.\<close>

lemma pow2_powi: "pow2 e = 2 powi e"
  by (simp add: pow2_def power_int_def inverse_eq_divide power_one_over)

lemma bitlen_rat_bounds:
  assumes "0 < (n::int)"
  shows "2 powi (bitlen n - 1) \<le> rat_of_int n" and "rat_of_int n < 2 powi (bitlen n)"
proof -
  have b: "1 \<le> bitlen n" using assms by (simp add: bitlen_alt_def)
  have lo: "2 ^ nat (bitlen n - 1) \<le> n" and hi: "n < 2 ^ nat (bitlen n)"
    using bitlen_bounds [OF assms] by simp_all
  have "rat_of_int (2 ^ nat (bitlen n - 1)) \<le> rat_of_int n"
    using lo by (simp only: of_int_le_iff)
  then show "2 powi (bitlen n - 1) \<le> rat_of_int n"
    using b by (simp add: power_int_def)
  have "rat_of_int n < rat_of_int (2 ^ nat (bitlen n))"
    using hi by (simp only: of_int_less_iff)
  then show "rat_of_int n < 2 powi (bitlen n)"
    using b by (simp add: power_int_def)
qed

lemma floor_log2_bounds:
  assumes "0 < q"
  shows "pow2 (floor_log2 q) \<le> q \<and> q < pow2 (floor_log2 q + 1)"
proof -
  obtain p d where pd: "quotient_of q = (p, d)" by (cases "quotient_of q")
  have d: "0 < d" using pd by (rule quotient_of_denom_pos)
  have q: "q = rat_of_int p / rat_of_int d" using pd by (rule quotient_of_div)
  have p: "0 < p" using assms d q by (simp add: zero_less_divide_iff)
  let ?g = "bitlen p - bitlen d"
  have two: "(2::rat) \<noteq> 0" by simp
  have up: "q < 2 powi (?g + 1)"
  proof -
    have "rat_of_int p / rat_of_int d < 2 powi (bitlen p) / 2 powi (bitlen d - 1)"
      using bitlen_rat_bounds [OF p] bitlen_rat_bounds [OF d] p d
      by (intro frac_less) simp_all
    also have "\<dots> = 2 powi (bitlen p - (bitlen d - 1))"
      by (simp only: power_int_diff [OF disjI1 [OF two]])
    finally show ?thesis using q by (simp add: algebra_simps)
  qed
  have lo: "2 powi (?g - 1) \<le> q"
  proof -
    have "2 powi (bitlen p - 1) / 2 powi (bitlen d) \<le> rat_of_int p / rat_of_int d"
      using bitlen_rat_bounds [OF p] bitlen_rat_bounds [OF d] p d
      by (intro frac_le) simp_all
    moreover have "2 powi (bitlen p - 1) / 2 powi (bitlen d) = (2::rat) powi (bitlen p - 1 - bitlen d)"
      by (simp only: power_int_diff [OF disjI1 [OF two]])
    ultimately show ?thesis using q by (simp add: algebra_simps)
  qed
  show ?thesis
  proof (cases "pow2 ?g \<le> q")
    case True
    then show ?thesis using up pd by (simp add: floor_log2_def pow2_powi)
  next
    case False
    then have "floor_log2 q = ?g - 1" using pd by (simp add: floor_log2_def)
    then show ?thesis using False lo by (simp add: pow2_powi)
  qed
qed

text \<open>The doubles nearest to 0.1 and 0.3, and the division of floats as the model has
  it at the doubles nearest to some decimal timebases and clocks: 0.3 / 0.1 truncates to 2, 0.7 / 0.1 to 6, 1.0 / 0.1 to 10
  and 0.5 / 0.01 to 50, as in Python.\<close>

lemma float_round_examples:
  "float_round (1 / 10) = 3602879701896397 / 36028797018963968"
  "float_round (3 / 10) = 5404319552844595 / 18014398509481984"
  "float_round (7 / 4) = 7 / 4"
  by code_simp+

lemma float_quotient_examples:
  "map_sum id py_int (py_truediv (float_round (3 / 10)) (float_round (1 / 10))) = Inr 2"
  "map_sum id py_int (py_truediv (float_round (7 / 10)) (float_round (1 / 10))) = Inr 6"
  "map_sum id py_int (py_truediv 1 (float_round (1 / 10))) = Inr 10"
  "map_sum id py_int (py_truediv (1 / 2) (float_round (1 / 100))) = Inr 50"
  by code_simp+




section \<open>The deadline of the playback loop\<close>

text \<open>A pass that starts half a period after the previous deadline sets a deadline
  that is not the previous one plus the period; and four passes that each start half a
  period late, none of them reporting an exceeded sample rate, end a period and a half
  behind four periods.\<close>

theorem pass_deadline_counterexample:
  "pass four_row_updater (1, 1) (pass_at (3 / 2)) =
     Inr ((2, 5 / 2), [SetValue ''x'' 1 (Num 6), Sleep 1]) \<and>
   (5 / 2 :: rat) \<noteq> 1 + period four_row_updater \<and>
   run four_row_updater 0 [pass_at 0, pass_at (3 / 2), pass_at 3, pass_at (9 / 2)] =
     (Running, (4, 11 / 2),
      [SetValue ''x'' 0 (Num 5), Sleep 1, SetValue ''x'' 1 (Num 6), Sleep 1,
       SetValue ''x'' 2 (Num 7), Sleep 1, SetValue ''x'' 3 (Num 8), Sleep 1]) \<and>
   (11 / 2 :: rat) - (0 + 4 * period four_row_updater) > period four_row_updater"
  by code_simp

text \<open>
  Claim C2, as the code has it. Every pass of the loop sets the deadline to the reading
  of the clock taken at the top of that pass plus the period of the group: the deadline
  is based anew on the current time in each pass. It is the previous deadline plus the
  period exactly when the pass starts at the previous deadline.
\<close>

theorem pass_deadline:
  assumes "pass u st inp = Inr (st', evs)"
  shows "snd st' = time_top inp + period u \<and>
         (snd st' = snd st + period u \<longleftrightarrow> time_top inp = snd st)"
  using assms by (auto simp add: pass_def Let_def split: sum.splits)

theorem pass_deadline_witness:
  "pass four_row_updater (1, 1) (pass_at (3 / 2)) =
     Inr ((2, 5 / 2), [SetValue ''x'' 1 (Num 6), Sleep 1]) \<and>
   snd ((2, 5 / 2) :: nat \<times> rat) = time_top (pass_at (3 / 2)) + period four_row_updater \<and>
   time_top (pass_at (3 / 2)) \<noteq> snd ((1, 1) :: nat \<times> rat)"
proof -
  have p: "pass four_row_updater (1, 1) (pass_at (3 / 2)) =
     Inr ((2, 5 / 2), [SetValue ''x'' 1 (Num 6), Sleep 1])"
    by code_simp
  have n: "time_top (pass_at (3 / 2)) \<noteq> snd ((1, 1) :: nat \<times> rat)"
    by (simp add: pass_at_def)
  from pass_deadline [OF p] show ?thesis using p n by simp
qed

section \<open>Failures of single files\<close>






section \<open>Stacking the tables of several files\<close>

text \<open>Filling a table with the labels it misses appends one column of nulls per label
  and changes neither its rows nor the columns it had.\<close>

lemma put_column_new:
  "name \<notin> set (columns df) \<Longrightarrow> put_column name vals df = df @ [(name, vals)]"
  by (induction df) (auto simp add: columns_def)

lemma nrows_append_null: "nrows (df @ [(c, replicate (nrows df) Null)]) = nrows df"
  by (cases df) (simp_all add: nrows_def)

lemma foldl_df_set_null:
  assumes "distinct cs" and "set cs \<inter> set (columns df) = {}"
  shows "foldl df_set_null df cs = df @ map (\<lambda>c. (c, replicate (nrows df) Null)) cs"
  using assms
proof (induction cs arbitrary: df)
  case Nil
  then show ?case by simp
next
  case (Cons c cs)
  let ?df = "df @ [(c, replicate (nrows df) Null)]"
  have step: "df_set_null df c = ?df"
    using Cons.prems(2) by (simp add: df_set_null_def put_column_new)
  have n: "nrows ?df = nrows df" by (rule nrows_append_null)
  have "set cs \<inter> set (columns ?df) = {}"
    using Cons.prems by (auto simp add: columns_def)
  then have "foldl df_set_null ?df cs = ?df @ map (\<lambda>c. (c, replicate (nrows ?df) Null)) cs"
    using Cons.IH [of ?df] Cons.prems(1) by simp
  then show ?case by (simp add: step n)
qed

lemma fill_missing_eq:
  assumes "distinct cols"
  shows "fill_missing cols df =
           df @ map (\<lambda>c. (c, replicate (nrows df) Null))
                  (filter (\<lambda>c. c \<notin> set (columns df)) cols)"
  unfolding fill_missing_def
  using assms by (intro foldl_df_set_null) auto




lemma nrows_append_nulls:
  "nrows (df @ map (\<lambda>c. (c, replicate (nrows df) Null)) cs) = nrows df"
  by (cases df; cases cs) (simp_all add: nrows_def)

lemma nrows_fill_missing:
  assumes "distinct cols"
  shows "nrows (fill_missing cols df) = nrows df"
  by (simp add: fill_missing_eq [OF assms] nrows_append_nulls)









end
